theory Spec2Isabelle
  imports Complex_Main "HOL-Library.Multiset" "HOL-Library.Sublist"
begin

section \<open>The dashboard generator (\<open>generate_dashboard.py\<close>)\<close>

subsection \<open>Python built-ins the script relies on\<close>

text \<open>
  \<open>sorted(xs, key=k, reverse=r)\<close> is a stable sort. With \<open>reverse=True\<close> CPython
  reverses the list, sorts it stably in ascending key order and reverses the result, so
  that elements with equal keys keep their original relative order. Any stable sort
  computes the same list as the insertion sort \<^const>\<open>sort_key\<close> used here.
\<close>

definition sorted_py :: "('a \<Rightarrow> 'k::linorder) \<Rightarrow> bool \<Rightarrow> 'a list \<Rightarrow> 'a list" where
  "sorted_py key reverse xs =
     (if reverse then rev (sort_key key (rev xs)) else sort_key key xs)"

datatype py_error = ZeroDivisionError

text \<open>\<open>a // b\<close> on Python integers: floor division, raising on a zero divisor.\<close>

definition py_floordiv :: "int \<Rightarrow> int \<Rightarrow> py_error + int" where
  "py_floordiv a b = (if b = 0 then Inl ZeroDivisionError else Inr (a div b))"

text \<open>Decimal rendering of integers: \<open>f"{n}"\<close> and, with thousands separators, \<open>f"{n:,}"\<close>.\<close>

definition digit_char :: "nat \<Rightarrow> char" where
  "digit_char d = ''0123456789'' ! d"

function str_nat :: "nat \<Rightarrow> string" where
  "str_nat n = (if n < 10 then [digit_char n] else str_nat (n div 10) @ [digit_char (n mod 10)])"
  by pat_completeness auto
termination
  by (relation "measure (\<lambda>n. n)") auto

declare str_nat.simps [simp del]

definition str_int :: "int \<Rightarrow> string" where
  "str_int i = (if i < 0 then CHR ''-'' # str_nat (nat (- i)) else str_nat (nat i))"

text \<open>Grouping works on the digits from the least significant end.\<close>

fun commas_rev :: "string \<Rightarrow> string" where
  "commas_rev (a # b # c # d # ds) = a # b # c # CHR '','' # commas_rev (d # ds)"
| "commas_rev ds = ds"

definition group_digits :: "string \<Rightarrow> string" where
  "group_digits ds = rev (commas_rev (rev ds))"

definition fmt_comma :: "int \<Rightarrow> string" where
  "fmt_comma i =
     (if i < 0 then CHR ''-'' # group_digits (str_nat (nat (- i)))
      else group_digits (str_nat (nat i)))"

text \<open>
  A \<open>defaultdict(int)\<close> used as a counter. Python dictionaries keep their keys in
  insertion order, and the script sorts \<open>items()\<close>, so the table is an association list
  in insertion order: \<open>d[k] += 1\<close> updates an existing entry in place and appends a
  missing one (created with the default \<open>0\<close>) at the end.
\<close>

fun bump :: "'k \<Rightarrow> ('k \<times> int) list \<Rightarrow> ('k \<times> int) list" where
  "bump k [] = [(k, 0 + 1)]"
| "bump k ((a, c) # ps) = (if a = k then (a, c + 1) # ps else (a, c) # bump k ps)"

subsection \<open>Data model\<close>

text \<open>The dictionary appended to \<open>repos_data\<close> for each fetched repository.\<close>

record repo =
  name :: string
  full_name :: string
  owner :: string
  stars :: int
  language :: string
  created_at :: string
  updated_at :: string

text \<open>
  The fields of the remote JSON record that the script reads. \<open>language\<close> is \<open>null\<close>
  for a repository without a primary language.
\<close>

record api_repo =
  api_name :: string
  api_full_name :: string
  api_owner_login :: string
  api_stargazers_count :: int
  api_language :: "string option"
  api_created_at :: string
  api_updated_at :: string

text \<open>
  What one \<open>requests.get\<close> can do: raise, or return a response with a status code and a
  body. The body is \<open>None\<close> when \<open>response.json()\<close> or one of the field lookups raises.
\<close>

datatype response = Response (status_code: int) (json: "api_repo option")

datatype outcome = Raised | Returned response

datatype log_line = Failed_to_get string int | Error_processing string

subsection \<open>Fetcher\<close>

definition repos_to_track :: "string list" where
  "repos_to_track =
     [''facebook/react'', ''microsoft/vscode'', ''google/tensorflow'', ''apple/swift'',
      ''netflix/zuul'', ''amazon/aws-sdk-js'', ''stripe/stripe-js'', ''twilio/twilio-python'']"

definition repo_url :: "string \<Rightarrow> string" where
  "repo_url repo_name = ''https://api.github.com/repos/'' @ repo_name"

text \<open>\<open>repo_data['language'] or 'Unknown'\<close>: \<open>None\<close> and the empty string are falsy.\<close>

definition language_or_unknown :: "string option \<Rightarrow> string" where
  "language_or_unknown l =
     (case l of None \<Rightarrow> ''Unknown'' | Some s \<Rightarrow> if s = [] then ''Unknown'' else s)"

definition snapshot :: "api_repo \<Rightarrow> repo" where
  "snapshot repo_data =
     \<lparr> name = api_name repo_data,
       full_name = api_full_name repo_data,
       owner = api_owner_login repo_data,
       stars = api_stargazers_count repo_data,
       language = language_or_unknown (api_language repo_data),
       created_at = api_created_at repo_data,
       updated_at = api_updated_at repo_data \<rparr>"

text \<open>
  One iteration of the loop over \<open>repos_to_track\<close>. The state is \<open>repos_data\<close> together
  with the lines printed so far.
\<close>

definition fetch_step ::
  "(string \<Rightarrow> outcome) \<Rightarrow> string \<Rightarrow> repo list \<times> log_line list \<Rightarrow> repo list \<times> log_line list" where
  "fetch_step get repo_name st =
     (case get (repo_url repo_name) of
        Raised \<Rightarrow> (fst st, snd st @ [Error_processing repo_name])
      | Returned response \<Rightarrow>
          if status_code response = 200 then
            (case json response of
               None \<Rightarrow> (fst st, snd st @ [Error_processing repo_name])
             | Some repo_data \<Rightarrow> (fst st @ [snapshot repo_data], snd st))
          else (fst st, snd st @ [Failed_to_get repo_name (status_code response)]))"

fun fetch_loop ::
  "(string \<Rightarrow> outcome) \<Rightarrow> string list \<Rightarrow> repo list \<times> log_line list \<Rightarrow> repo list \<times> log_line list" where
  "fetch_loop get [] st = st"
| "fetch_loop get (repo_name # rest) st = fetch_loop get rest (fetch_step get repo_name st)"

definition fetch_all :: "(string \<Rightarrow> outcome) \<Rightarrow> string list \<Rightarrow> repo list" where
  "fetch_all get ids = fst (fetch_loop get ids ([], []))"

definition get_github_data :: "(string \<Rightarrow> outcome) \<Rightarrow> repo list" where
  "get_github_data get = fetch_all get repos_to_track"

text \<open>An identifier succeeds when its request returns status 200 with a readable record.\<close>

definition fetched :: "(string \<Rightarrow> outcome) \<Rightarrow> string \<Rightarrow> repo option" where
  "fetched get repo_name =
     (case get (repo_url repo_name) of
        Raised \<Rightarrow> None
      | Returned response \<Rightarrow>
          if status_code response = 200 then map_option snapshot (json response) else None)"

definition succeeded :: "(string \<Rightarrow> outcome) \<Rightarrow> string \<Rightarrow> bool" where
  "succeeded get repo_name = (fetched get repo_name \<noteq> None)"

subsection \<open>Aggregation\<close>

definition top_by_stars :: "nat \<Rightarrow> repo list \<Rightarrow> repo list" where
  "top_by_stars K repos_data = take K (sorted_py stars True repos_data)"

text \<open>The counting loop \<open>for repo in repos_data: d[repo[key]] += 1\<close>.\<close>

definition count_by :: "(repo \<Rightarrow> 'k) \<Rightarrow> repo list \<Rightarrow> ('k \<times> int) list" where
  "count_by key repos_data = fold (\<lambda>repo d. bump (key repo) d) repos_data []"

definition top_counts :: "nat \<Rightarrow> ('k \<times> int) list \<Rightarrow> ('k \<times> int) list" where
  "top_counts K items = take K (sorted_py snd True items)"

definition top_langs :: "repo list \<Rightarrow> (string \<times> int) list" where
  "top_langs repos_data = top_counts 8 (count_by language repos_data)"

definition top_owners :: "repo list \<Rightarrow> (string \<times> int) list" where
  "top_owners repos_data = top_counts 8 (count_by owner repos_data)"

text \<open>Position of the first occurrence of a key in a list (its length when absent).\<close>

fun first_index :: "'a list \<Rightarrow> 'a \<Rightarrow> nat" where
  "first_index [] k = 0"
| "first_index (x # xs) k = (if x = k then 0 else Suc (first_index xs k))"

text \<open>
  The order of a ranking in the specification's words, for entries \<open>(key, count)\<close> over
  the list \<open>ks\<close> of keys in input order: a larger count ranks first, and among equal
  counts the key seen first in the input ranks first.
\<close>

definition ranks_before :: "'k list \<Rightarrow> 'k \<times> int \<Rightarrow> 'k \<times> int \<Rightarrow> bool" where
  "ranks_before ks a b =
     (snd a > snd b \<or> (snd a = snd b \<and> first_index ks (fst a) < first_index ks (fst b)))"

subsection \<open>Charts\<close>

text \<open>
  The data handed to the plotting backend; drawing itself is outside the model. A
  skipped chart is \<open>None\<close>.
\<close>

record overview_chart =
  hist_stars :: "int list"
  lang_bars :: "(string list \<times> int list) option"
  repo_bars :: "string list \<times> int list"
  owner_bars :: "(string list \<times> int list) option"

definition short_name :: "string \<Rightarrow> string" where
  "short_name n = (if length n > 15 then take 15 n @ ''...'' else n)"

definition bars :: "(string \<times> int) list \<Rightarrow> (string list \<times> int list) option" where
  "bars items = (if items = [] then None else Some (map fst items, map snd items))"

definition generate_overview_chart :: "repo list \<Rightarrow> overview_chart option" where
  "generate_overview_chart repos_data =
     (if repos_data = [] then None
      else
        let top_repos = top_by_stars 10 repos_data;
            names = map (\<lambda>repo. short_name (name repo)) top_repos;
            stars_count = map stars top_repos
        in Some \<lparr> hist_stars = map stars repos_data,
                  lang_bars = bars (top_langs repos_data),
                  repo_bars = (rev names, rev stars_count),
                  owner_bars = bars (top_owners repos_data) \<rparr>)"

definition generate_language_chart :: "repo list \<Rightarrow> (string list \<times> int list) option" where
  "generate_language_chart repos_data =
     (let languages = count_by language repos_data
      in if languages = [] then None
         else
           let sorted_data = sorted_py snd True (zip (map fst languages) (map snd languages))
           in Some (map fst sorted_data, map snd sorted_data))"

subsection \<open>Documents\<close>

text \<open>
  A document is modelled by the values interpolated into its fixed template text, in
  the form in which they are printed. The timestamp is a parameter.
\<close>

record table_row =
  row_name :: string
  row_link :: string
  row_owner :: string
  row_stars :: string
  row_language :: string

definition table_row_of :: "repo \<Rightarrow> table_row" where
  "table_row_of repo =
     \<lparr> row_name = name repo,
       row_link = ''https://github.com/'' @ full_name repo,
       row_owner = owner repo,
       row_stars = fmt_comma (stars repo),
       row_language = language repo \<rparr>"

record document =
  tracked_repositories :: string
  total_stars_text :: string
  average_stars_text :: string
  top_rows :: "table_row list"
  last_update :: string

definition update_readme :: "string \<Rightarrow> repo list \<Rightarrow> py_error + document" where
  "update_readme now repos_data =
     (let total_repos = int (length repos_data);
          total_stars = sum_list (map stars repos_data)
      in case (if total_repos > 0 then py_floordiv total_stars total_repos else Inr 0) of
           Inl e \<Rightarrow> Inl e
         | Inr avg_stars \<Rightarrow>
             let top_repos = top_by_stars 5 repos_data
             in Inr \<lparr> tracked_repositories = str_int total_repos,
                      total_stars_text = fmt_comma total_stars,
                      average_stars_text = fmt_comma avg_stars,
                      top_rows = map table_row_of top_repos,
                      last_update = now \<rparr>)"

definition create_index_html :: "string \<Rightarrow> repo list \<Rightarrow> py_error + document" where
  "create_index_html now repos_data =
     (case (if repos_data \<noteq> []
            then py_floordiv (sum_list (map stars repos_data)) (int (length repos_data))
            else Inr 0) of
        Inl e \<Rightarrow> Inl e
      | Inr avg \<Rightarrow>
          let top_repos = top_by_stars 10 repos_data
          in Inr \<lparr> tracked_repositories = str_int (int (length repos_data)),
                   total_stars_text = fmt_comma (sum_list (map stars repos_data)),
                   average_stars_text = fmt_comma avg,
                   top_rows = map table_row_of top_repos,
                   last_update = now \<rparr>)"

subsection \<open>The script's entry point\<close>

text \<open>
  \<open>main\<close> stops after the fetch when nothing was fetched; otherwise it produces both
  charts and both documents. Each document reads the clock on its own.
\<close>

record dashboard =
  overview_png :: "overview_chart option"
  languages_png :: "(string list \<times> int list) option"
  readme_md :: document
  index_html :: document

definition dashboard_main ::
  "(string \<Rightarrow> outcome) \<Rightarrow> string \<Rightarrow> string \<Rightarrow> py_error + dashboard option" where
  "dashboard_main get now now' =
     (let repos_data = get_github_data get
      in if repos_data = [] then Inr None
         else
           case update_readme now repos_data of
             Inl e \<Rightarrow> Inl e
           | Inr md \<Rightarrow>
               (case create_index_html now' repos_data of
                  Inl e \<Rightarrow> Inl e
                | Inr html \<Rightarrow>
                    Inr (Some \<lparr> overview_png = generate_overview_chart repos_data,
                                 languages_png = generate_language_chart repos_data,
                                 readme_md = md,
                                 index_html = html \<rparr>)))"

text \<open>
  A sample remote service for the tracked list: three of the eight identifiers fail (a
  404, a transport error and a redirect status), the other five answer 200.
\<close>

definition example_get :: "string \<Rightarrow> outcome" where
  "example_get url =
     (if url = repo_url ''google/tensorflow'' then Returned (Response 404 None)
      else if url = repo_url ''netflix/zuul'' then Raised
      else if url = repo_url ''amazon/aws-sdk-js'' then Returned (Response 301 None)
      else Returned (Response 200 (Some
        \<lparr> api_name = url, api_full_name = drop 29 url, api_owner_login = url,
          api_stargazers_count = 1, api_language = None,
          api_created_at = [], api_updated_at = [] \<rparr>)))"

section \<open>The runner health check (\<open>runner-health-check.py\<close>)\<close>

record version_info =
  major :: int
  minor :: int
  micro :: int

definition check_python_version :: "version_info \<Rightarrow> bool" where
  "check_python_version version = (major version \<ge> 3 \<and> minor version \<ge> 7)"

text \<open>
  What the checks observe of the host they run on.
  \<^item> \<open>importlib.import_module\<close> returns the module, raises \<open>ImportError\<close>, or raises
    some other exception, which \<open>check_package\<close> does not catch.
  \<^item> \<open>shutil.which\<close> finds the command or not. When it does, \<open>subprocess.run\<close> with
    \<open>--version\<close> completes with a return code, raises \<open>TimeoutExpired\<close> or another
    \<open>SubprocessError\<close>, or raises some other exception (an \<open>OSError\<close> such as
    \<open>PermissionError\<close>), which \<open>check_command\<close> does not catch.
  \<^item> \<open>check_disk_space\<close> catches what \<open>statvfs\<close> raises and \<open>check_network\<close> catches
    every exception, so both always return a boolean: whether at least 10 GiB are
    free, and whether the request to the API host returned.
\<close>

datatype import_outcome = Imported | Import_error | Import_raised

datatype run_outcome = Completed int | Subprocess_error | Run_raised

record host =
  python_version :: version_info
  import_module :: "string \<Rightarrow> import_outcome"
  which :: "string \<Rightarrow> string option"
  run_version :: "string \<Rightarrow> run_outcome"
  disk_space_ok :: bool
  network_ok :: bool

text \<open>An exception that leaves the function: \<open>Inl\<close> of a check's result.\<close>

datatype uncaught = Uncaught

definition check_package :: "host \<Rightarrow> string \<Rightarrow> uncaught + bool" where
  "check_package h package_name =
     (case import_module h package_name of
        Imported \<Rightarrow> Inr True
      | Import_error \<Rightarrow> Inr False
      | Import_raised \<Rightarrow> Inl Uncaught)"

definition check_command :: "host \<Rightarrow> string \<Rightarrow> uncaught + bool" where
  "check_command h command =
     (case which h command of
        Some path \<Rightarrow>
          (case run_version h command of
             Completed returncode \<Rightarrow> Inr True
           | Subprocess_error \<Rightarrow> Inr True
           | Run_raised \<Rightarrow> Inl Uncaught)
      | None \<Rightarrow> Inr False)"

definition check_disk_space :: "host \<Rightarrow> bool" where
  "check_disk_space h = disk_space_ok h"

definition check_network :: "host \<Rightarrow> bool" where
  "check_network h = network_ok h"

definition required_packages :: "string list" where
  "required_packages = [''requests'', ''matplotlib'', ''seaborn'', ''pandas'']"

definition required_commands :: "string list" where
  "required_commands = [''git'', ''pip'']"

text \<open>
  \<open>total_checks += 1; if check(): checks_passed += 1\<close> on the pair
  \<open>(checks_passed, total_checks)\<close>.
\<close>

definition tally :: "bool \<Rightarrow> int \<times> int \<Rightarrow> int \<times> int" where
  "tally ok st = (if ok then (fst st + 1, snd st + 1) else (fst st, snd st + 1))"

text \<open>
  The loops \<open>for package in required_packages\<close> and \<open>for command in required_commands\<close>:
  an exception leaving a check ends the loop and leaves \<open>main\<close>.
\<close>

fun check_each :: "('a \<Rightarrow> uncaught + bool) \<Rightarrow> 'a list \<Rightarrow> int \<times> int \<Rightarrow> uncaught + int \<times> int" where
  "check_each check [] st = Inr st"
| "check_each check (x # xs) st =
     (case check x of
        Inl e \<Rightarrow> Inl e
      | Inr ok \<Rightarrow> check_each check xs (tally ok st))"

text \<open>
  \<open>main\<close> returns the exit status of the process: the argument of \<open>sys.exit\<close>, or \<open>1\<close>
  when an exception leaves \<open>main\<close> (the interpreter prints the traceback and exits with
  status 1).
\<close>

definition health_main :: "host \<Rightarrow> int" where
  "health_main h =
     (let st = (0, 0);
          st = tally (check_python_version (python_version h)) st
      in case check_each (check_package h) required_packages st of
           Inl e \<Rightarrow> 1
         | Inr st \<Rightarrow>
             (case check_each (check_command h) required_commands st of
                Inl e \<Rightarrow> 1
              | Inr st \<Rightarrow>
                  let st = tally (check_disk_space h) st;
                      st = tally (check_network h) st
                  in if fst st = snd st then 0 else 1))"

text \<open>
  Two sample hosts: one on which everything is in order, and the same host with a
  \<open>pip\<close> that is found on the path but cannot be executed.
\<close>

definition healthy_host :: host where
  "healthy_host =
     \<lparr> python_version = \<lparr>major = 3, minor = 11, micro = 4\<rparr>,
       import_module = (\<lambda>package. Imported),
       which = (\<lambda>command. Some (''/usr/bin/'' @ command)),
       run_version = (\<lambda>command. Completed 0),
       disk_space_ok = True,
       network_ok = True \<rparr>"

definition broken_pip_host :: host where
  "broken_pip_host =
     healthy_host \<lparr> run_version :=
       (\<lambda>command. if command = ''pip'' then Run_raised else Completed 0) \<rparr>"

text \<open>
  The minimum-version test in the specification's words, for comparison with
  \<^const>\<open>check_python_version\<close>: the pair \<open>(major, minor)\<close> is compared
  lexicographically with the minimum.
\<close>

definition version_at_least_spec :: "int \<Rightarrow> int \<Rightarrow> version_info \<Rightarrow> bool" where
  "version_at_least_spec min_major min_minor version =
     (major version > min_major \<or> (major version = min_major \<and> minor version \<ge> min_minor))"

section \<open>Properties of the built-ins\<close>

lemma sorted_py_rev_sorted:
  "sorted_wrt (\<lambda>a b. key a \<ge> key b) (sorted_py key True xs)"
proof -
  have "sorted (map key (sort_key key (rev xs)))" by (rule sorted_sort_key)
  then have "sorted_wrt (\<lambda>a b. key a \<le> key b) (sort_key key (rev xs))"
    by (simp add: sorted_map)
  then show ?thesis
    by (simp add: sorted_py_def sorted_wrt_rev)
qed

lemma sorted_py_rev_stable:
  "filter (\<lambda>y. key y = k) (sorted_py key True xs) = filter (\<lambda>y. key y = k) xs"
  by (simp add: sorted_py_def sort_key_stable flip: rev_filter)

lemma mset_sorted_py: "mset (sorted_py key r xs) = mset xs"
  by (simp add: sorted_py_def)

lemma set_sorted_py: "set (sorted_py key r xs) = set xs"
  by (simp add: sorted_py_def)

lemma length_sorted_py: "length (sorted_py key r xs) = length xs"
  by (simp add: sorted_py_def)

lemma filter_take_prefix: "prefix (filter P (take n ys)) (filter P ys)"
proof -
  have "filter P ys = filter P (take n ys) @ filter P (drop n ys)"
    by (metis append_take_drop_id filter_append)
  then show ?thesis by (metis prefixI)
qed

lemma sorted_wrt_filterD:
  "sorted_wrt P (filter Q ys) \<Longrightarrow> sorted_wrt (\<lambda>a b. Q a \<and> Q b \<longrightarrow> P a b) ys"
  by (induction ys) (auto split: if_splits)

text \<open>
  A descending stable sort orders by key first and, among equal keys, by whatever
  order the input already had.
\<close>

lemma sorted_py_rev_lex:
  assumes "sorted_wrt P xs"
  shows "sorted_wrt (\<lambda>a b. key a > key b \<or> (key a = key b \<and> P a b)) (sorted_py key True xs)"
proof -
  let ?ys = "sorted_py key True xs"
  have A: "sorted_wrt (\<lambda>a b. key a \<ge> key b) ?ys" by (rule sorted_py_rev_sorted)
  have B: "sorted_wrt (\<lambda>a b. key a = k \<and> key b = k \<longrightarrow> P a b) ?ys" for k
  proof (rule sorted_wrt_filterD)
    have "sorted_wrt P (filter (\<lambda>y. key y = k) xs)"
      using assms by (rule sorted_wrt_filter)
    then show "sorted_wrt P (filter (\<lambda>y. key y = k) ?ys)"
      by (simp only: sorted_py_rev_stable)
  qed
  show ?thesis
    unfolding sorted_wrt_iff_nth_less
  proof (intro allI impI)
    fix i j assume ij: "i < j" "j < length ?ys"
    from A ij have 1: "key (?ys ! i) \<ge> key (?ys ! j)"
      by (simp add: sorted_wrt_iff_nth_less)
    from B [of "key (?ys ! i)"] ij
    have 2: "key (?ys ! j) = key (?ys ! i) \<longrightarrow> P (?ys ! i) (?ys ! j)"
      by (simp add: sorted_wrt_iff_nth_less)
    from 1 2
    show "key (?ys ! j) < key (?ys ! i) \<or> key (?ys ! i) = key (?ys ! j) \<and> P (?ys ! i) (?ys ! j)"
      by auto
  qed
qed

lemma str_int_0: "str_int 0 = ''0''"
  by (simp add: str_int_def str_nat.simps [of 0] digit_char_def)

lemma fmt_comma_0: "fmt_comma 0 = ''0''"
  by (simp add: fmt_comma_def group_digits_def str_nat.simps [of 0] digit_char_def)

lemma str_nat_small: "n < 10 \<Longrightarrow> str_nat n = [digit_char n]"
  by (simp add: str_nat.simps [of n])

lemma str_nat_large: "10 \<le> n \<Longrightarrow> str_nat n = str_nat (n div 10) @ [digit_char (n mod 10)]"
  by (simp add: str_nat.simps [of n])

lemma fmt_comma_examples:
  "fmt_comma 999 = ''999''" "fmt_comma 1000 = ''1,000''"
  "fmt_comma 1234567 = ''1,234,567''" "fmt_comma (- 1234) = ''-1,234''"
  by (simp_all add: fmt_comma_def group_digits_def str_nat_small str_nat_large digit_char_def)

subsection \<open>The counter\<close>

lemma sum_bump: "sum_list (map snd (bump k d)) = sum_list (map snd d) + 1"
  by (induction k d rule: bump.induct) simp_all

lemma keys_bump:
  "map fst (bump k d) = (if k \<in> set (map fst d) then map fst d else map fst d @ [k])"
  by (induction k d rule: bump.induct) auto

lemma count_bump:
  "map_of (bump k d) = (map_of d)(k \<mapsto> (case map_of d k of None \<Rightarrow> 1 | Some c \<Rightarrow> c + 1))"
  by (induction k d rule: bump.induct) (auto simp: fun_eq_iff)

lemma count_by_Nil: "count_by key [] = []"
  by (simp add: count_by_def)

lemma count_by_snoc: "count_by key (xs @ [x]) = bump (key x) (count_by key xs)"
  by (simp add: count_by_def)

lemma sum_count_by: "sum_list (map snd (count_by key xs)) = int (length xs)"
  by (induction xs rule: rev_induct) (simp_all add: count_by_Nil count_by_snoc sum_bump)

lemma keys_count_by_set: "set (map fst (count_by key xs)) = set (map key xs)"
  by (induction xs rule: rev_induct) (auto simp: count_by_snoc keys_bump count_by_Nil)

lemma distinct_count_by: "distinct (map fst (count_by key xs))"
  by (induction xs rule: rev_induct) (simp_all add: count_by_Nil count_by_snoc keys_bump)

lemma count_by_counts:
  "map_of (count_by key xs) k =
     (if k \<in> set (map key xs) then Some (int (count_list (map key xs) k)) else None)"
  by (induction xs rule: rev_induct) (auto simp: count_by_snoc count_bump count_by_Nil)

lemma count_by_entry:
  assumes "e \<in> set (count_by key xs)"
  shows "snd e = int (count_list (map key xs) (fst e))"
proof -
  from assms have "(fst e, snd e) \<in> set (count_by key xs)" by simp
  then have "map_of (count_by key xs) (fst e) = Some (snd e)"
    by (simp only: map_of_eq_Some_iff [OF distinct_count_by])
  then show ?thesis
    by (simp add: count_by_counts split: if_splits)
qed

lemma first_index_less: "k \<in> set xs \<Longrightarrow> first_index xs k < length xs"
  by (induction xs) auto

lemma first_index_append_in: "k \<in> set xs \<Longrightarrow> first_index (xs @ ys) k = first_index xs k"
  by (induction xs) auto

lemma first_index_snoc_new: "k \<notin> set xs \<Longrightarrow> first_index (xs @ [k]) k = length xs"
  by (induction xs) auto

text \<open>The keys of the counter stand in the order in which they were first seen.\<close>

lemma keys_count_by_first_seen:
  "sorted_wrt (\<lambda>a b. first_index (map key xs) a < first_index (map key xs) b)
     (map fst (count_by key xs))"
proof (induction xs rule: rev_induct)
  case Nil
  show ?case by (simp add: count_by_Nil)
next
  case (snoc x xs)
  let ?ks = "map key xs"
  let ?d = "map fst (count_by key xs)"
  have mono: "sorted_wrt (\<lambda>a b. first_index (?ks @ [key x]) a < first_index (?ks @ [key x]) b) ?d"
    using snoc.IH
    by (rule sorted_wrt_mono_rel [rotated])
       (simp add: keys_count_by_set first_index_append_in del: set_map)
  show ?case
  proof (cases "key x \<in> set ?ks")
    case True
    then show ?thesis using mono
      by (simp add: count_by_snoc keys_bump keys_count_by_set del: set_map)
  next
    case False
    have "first_index (?ks @ [key x]) a < first_index (?ks @ [key x]) (key x)"
      if "a \<in> set ?d" for a
    proof -
      from that have "a \<in> set ?ks" by (simp only: keys_count_by_set)
      then show ?thesis using False first_index_less [of a ?ks]
        by (simp add: first_index_append_in first_index_snoc_new del: set_map)
    qed
    then show ?thesis using mono False
      by (simp add: count_by_snoc keys_bump keys_count_by_set sorted_wrt_append del: set_map)
  qed
qed

lemma count_by_ranked:
  "sorted_wrt (ranks_before (map key xs)) (sorted_py snd True (count_by key xs))"
proof -
  have "sorted_wrt (\<lambda>a b. first_index (map key xs) (fst a) < first_index (map key xs) (fst b))
          (count_by key xs)"
    using keys_count_by_first_seen [of key xs] by (simp add: sorted_wrt_map)
  then have "sorted_wrt (\<lambda>a b. snd a > snd b \<or>
       (snd a = snd b \<and> first_index (map key xs) (fst a) < first_index (map key xs) (fst b)))
     (sorted_py snd True (count_by key xs))"
    by (rule sorted_py_rev_lex)
  then show ?thesis
    by (rule sorted_wrt_mono_rel [rotated]) (simp add: ranks_before_def)
qed

lemma top_counts_ranked:
  "sorted_wrt (ranks_before (map key xs)) (top_counts K (count_by key xs))"
  unfolding top_counts_def using count_by_ranked by (rule sorted_wrt_take)

lemma set_top_counts: "set (top_counts K items) \<subseteq> set items"
  using set_take_subset [of K "sorted_py snd True items"]
  by (simp add: top_counts_def set_sorted_py)

text \<open>Every listed entry is a key of the input with its number of occurrences.\<close>

lemma top_counts_entries:
  "list_all (\<lambda>e. fst e \<in> set (map key xs) \<and> snd e = int (count_list (map key xs) (fst e)))
     (top_counts K (count_by key xs))"
proof -
  have "fst e \<in> set (map key xs) \<and> snd e = int (count_list (map key xs) (fst e))"
    if "e \<in> set (top_counts K (count_by key xs))" for e
  proof -
    from that set_top_counts have e: "e \<in> set (count_by key xs)" by blast
    then have "fst e \<in> set (map fst (count_by key xs))" by simp
    then have "fst e \<in> set (map key xs)" by (simp only: keys_count_by_set)
    with count_by_entry [OF e] show ?thesis by simp
  qed
  then show ?thesis by (simp add: list_all_iff)
qed

lemma distinct_top_counts: "distinct (map fst (top_counts K (count_by key xs)))"
proof -
  have "mset (map fst (sorted_py snd True (count_by key xs))) = mset (map fst (count_by key xs))"
    by (simp add: mset_sorted_py)
  then have "distinct (map fst (sorted_py snd True (count_by key xs)))"
    using distinct_count_by [of key xs] by (metis mset_eq_imp_distinct_iff)
  then show ?thesis
    by (simp add: top_counts_def take_map [symmetric])
qed

text \<open>The ranking lists as many keys as the limit allows.\<close>

lemma length_top_counts:
  "length (top_counts K (count_by key xs)) = min K (card (set (map key xs)))"
proof -
  have "length (count_by key xs) = length (map fst (count_by key xs))" by simp
  also have "\<dots> = card (set (map fst (count_by key xs)))"
    using distinct_count_by [of key xs] by (simp only: distinct_card)
  also have "\<dots> = card (set (map key xs))" by (simp only: keys_count_by_set)
  finally show ?thesis
    by (simp add: top_counts_def length_sorted_py min.commute)
qed

text \<open>A key of the input that the ranking leaves out ranks below every listed entry.\<close>

lemma top_counts_omitted:
  "list_all (\<lambda>k. k \<in> set (map fst (top_counts K (count_by key xs)))
        \<or> list_all (\<lambda>e. ranks_before (map key xs) e (k, int (count_list (map key xs) k)))
             (top_counts K (count_by key xs)))
     (map key xs)"
proof -
  let ?ks = "map key xs"
  let ?ys = "sorted_py snd True (count_by key xs)"
  have "sorted_wrt (ranks_before ?ks) (take K ?ys @ drop K ?ys)"
    by (simp only: append_take_drop_id count_by_ranked)
  then have split: "\<forall>a \<in> set (take K ?ys). \<forall>b \<in> set (drop K ?ys). ranks_before ?ks a b"
    unfolding sorted_wrt_append by blast
  have "k \<in> set (map fst (take K ?ys))
        \<or> (\<forall>e \<in> set (take K ?ys). ranks_before ?ks e (k, int (count_list ?ks k)))"
    if k: "k \<in> set ?ks" for k
  proof (cases "(k, int (count_list ?ks k)) \<in> set (take K ?ys)")
    case True
    then have "fst (k, int (count_list ?ks k)) \<in> fst ` set (take K ?ys)" by (rule imageI)
    then show ?thesis by simp
  next
    case False
    from k have "map_of (count_by key xs) k = Some (int (count_list ?ks k))"
      by (simp add: count_by_counts)
    then have "(k, int (count_list ?ks k)) \<in> set (count_by key xs)" by (rule map_of_SomeD)
    then have "(k, int (count_list ?ks k)) \<in> set ?ys"
      by (simp only: set_sorted_py)
    moreover have "set ?ys = set (take K ?ys) \<union> set (drop K ?ys)"
      by (metis append_take_drop_id set_append)
    ultimately have "(k, int (count_list ?ks k)) \<in> set (drop K ?ys)"
      using False by blast
    with split show ?thesis by blast
  qed
  then show ?thesis
    unfolding top_counts_def list_all_iff by blast
qed

section \<open>Documents and rankings\<close>

lemma set_top_by_stars: "set (top_by_stars K xs) \<subseteq> set xs"
  using set_take_subset [of K "sorted_py stars True xs"]
  by (simp add: top_by_stars_def set_sorted_py)

text \<open>Neither document function can raise: the division is guarded.\<close>

lemma update_readme_eq:
  "update_readme now xs =
     Inr \<lparr> tracked_repositories = str_int (int (length xs)),
           total_stars_text = fmt_comma (sum_list (map stars xs)),
           average_stars_text =
             fmt_comma (if xs = [] then 0 else sum_list (map stars xs) div int (length xs)),
           top_rows = map table_row_of (top_by_stars 5 xs),
           last_update = now \<rparr>"
  by (cases xs) (simp_all add: update_readme_def py_floordiv_def Let_def)

lemma create_index_html_eq:
  "create_index_html now xs =
     Inr \<lparr> tracked_repositories = str_int (int (length xs)),
           total_stars_text = fmt_comma (sum_list (map stars xs)),
           average_stars_text =
             fmt_comma (if xs = [] then 0 else sum_list (map stars xs) div int (length xs)),
           top_rows = map table_row_of (top_by_stars 10 xs),
           last_update = now \<rparr>"
  by (cases xs) (simp_all add: create_index_html_def py_floordiv_def Let_def)

lemma floor_avg: "\<lfloor>real_of_int a / real n\<rfloor> = a div int n"
  using floor_divide_of_int_eq [of a "int n", where ?'a = real] by simp

lemma dashboard_main_no_data:
  "get_github_data get = [] \<Longrightarrow> dashboard_main get now now' = Inr None"
  by (simp add: dashboard_main_def)

section \<open>Fetcher\<close>

lemma fetch_step_fst:
  "fst (fetch_step get i st) = fst st @ (case fetched get i of None \<Rightarrow> [] | Some r \<Rightarrow> [r])"
  by (simp add: fetch_step_def fetched_def split: outcome.splits option.splits)

lemma fetch_loop_fst:
  "fst (fetch_loop get ids st) =
     fst st @ map (\<lambda>i. the (fetched get i)) (filter (succeeded get) ids)"
proof (induction ids arbitrary: st)
  case Nil
  show ?case by simp
next
  case (Cons i ids)
  show ?case
    by (cases "fetched get i") (simp_all add: Cons.IH fetch_step_fst succeeded_def)
qed

lemma fetch_all_eq:
  "fetch_all get ids = map (\<lambda>i. the (fetched get i)) (filter (succeeded get) ids)"
  by (simp add: fetch_all_def fetch_loop_fst)

lemma language_or_unknown_nonempty: "language_or_unknown l \<noteq> []"
  by (simp add: language_or_unknown_def split: option.splits)

lemma fetched_language: "fetched get i = Some r \<Longrightarrow> language r \<noteq> []"
  by (auto simp: fetched_def snapshot_def language_or_unknown_nonempty
      split: outcome.splits if_splits)

lemma fetch_all_language:
  assumes "r \<in> set (fetch_all get ids)"
  shows "language r \<noteq> []"
proof -
  from assms obtain i where "succeeded get i" and "r = the (fetched get i)"
    by (auto simp: fetch_all_eq)
  then have "fetched get i = Some r"
    by (auto simp: succeeded_def)
  then show ?thesis by (rule fetched_language)
qed

text \<open>
  C3. For every list of identifiers and every behaviour of the remote service, the
  fetcher returns the snapshots of exactly the identifiers that succeeded, in the order
  of the input; a failing identifier is skipped and the loop goes on, so the number of
  snapshots and the number of failures add up to the number of identifiers; the result
  is empty exactly when no identifier succeeded. With the sample service, where three
  of the eight tracked identifiers fail, the five others are returned in their order.
\<close>

theorem fetch_all_successes_in_order:
  "fetch_all get ids = map (\<lambda>i. the (fetched get i)) (filter (succeeded get) ids)
   \<and> length (fetch_all get ids) + length (filter (\<lambda>i. \<not> succeeded get i) ids) = length ids
   \<and> (fetch_all get ids = []) = list_all (\<lambda>i. \<not> succeeded get i) ids
   \<and> length (filter (\<lambda>i. \<not> succeeded example_get i) repos_to_track) = 3
   \<and> map full_name (get_github_data example_get) =
       [''facebook/react'', ''microsoft/vscode'', ''apple/swift'', ''stripe/stripe-js'',
        ''twilio/twilio-python'']"
proof -
  have 1: "length (fetch_all get ids) + length (filter (\<lambda>i. \<not> succeeded get i) ids) = length ids"
    using sum_length_filter_compl [of "succeeded get" ids] by (simp add: fetch_all_eq)
  have 2: "(fetch_all get ids = []) = list_all (\<lambda>i. \<not> succeeded get i) ids"
    by (simp add: fetch_all_eq filter_empty_conv list_all_iff)
  have 3: "length (filter (\<lambda>i. \<not> succeeded example_get i) repos_to_track) = 3"
    by (simp add: succeeded_def fetched_def repos_to_track_def example_get_def repo_url_def)
  have 4: "map full_name (get_github_data example_get) =
       [''facebook/react'', ''microsoft/vscode'', ''apple/swift'', ''stripe/stripe-js'',
        ''twilio/twilio-python'']"
    by (simp add: get_github_data_def fetch_all_def repos_to_track_def fetch_step_def
        example_get_def repo_url_def snapshot_def)
  from fetch_all_eq 1 2 3 4 show ?thesis by blast
qed

text \<open>
  C9. A snapshot takes the remote record's language, or \<open>Unknown\<close> when that is
  \<open>null\<close> or empty. So every snapshot the fetcher returns has a non-empty language, and
  so has everything later stages derive from the list: the rankings, the keys of the
  language counter, and the rows of both documents.
\<close>

theorem language_never_empty:
  "language (snapshot repo_data) =
     (if api_language repo_data = None \<or> api_language repo_data = Some []
      then ''Unknown'' else the (api_language repo_data))
   \<and> list_all (\<lambda>r. language r \<noteq> []) (fetch_all get ids)
   \<and> list_all (\<lambda>r. language r \<noteq> []) (top_by_stars K (fetch_all get ids))
   \<and> list_all (\<lambda>e. fst e \<noteq> []) (count_by language (fetch_all get ids))
   \<and> (\<exists>md html. update_readme now (fetch_all get ids) = Inr md
         \<and> create_index_html now' (fetch_all get ids) = Inr html
         \<and> list_all (\<lambda>row. row_language row \<noteq> []) (top_rows md)
         \<and> list_all (\<lambda>row. row_language row \<noteq> []) (top_rows html))"
proof -
  let ?xs = "fetch_all get ids"
  have 1: "language (snapshot repo_data) =
     (if api_language repo_data = None \<or> api_language repo_data = Some []
      then ''Unknown'' else the (api_language repo_data))"
    by (auto simp: snapshot_def language_or_unknown_def split: option.splits)
  have 2: "list_all (\<lambda>r. language r \<noteq> []) ?xs"
    by (simp add: list_all_iff fetch_all_language)
  have 3: "list_all (\<lambda>r. language r \<noteq> []) (top_by_stars K ?xs)" for K
    using set_top_by_stars [of K ?xs] by (auto simp: list_all_iff fetch_all_language)
  have 4: "list_all (\<lambda>e. fst e \<noteq> []) (count_by language ?xs)"
  proof -
    have "k \<noteq> []" if "k \<in> set (map fst (count_by language ?xs))" for k
      using that unfolding keys_count_by_set by (auto simp: fetch_all_language)
    then show ?thesis by (auto simp: list_all_iff)
  qed
  have 5: "list_all (\<lambda>row. row_language row \<noteq> []) (map table_row_of (top_by_stars K ?xs))" for K
    using 3 [of K] by (simp add: list_all_iff table_row_of_def)
  from 1 2 3 4 5 show ?thesis
    by (simp add: update_readme_eq create_index_html_eq)
qed

section \<open>Aggregator and renderer\<close>

text \<open>
  The ranking is a rearrangement: taken as a whole it need not be a subsequence of the
  input, only its equal-star groups are.
\<close>

lemma top_by_stars_reorders_input:
  "\<not> subseq
      (top_by_stars 2
        [\<lparr>name = ''a'', full_name = ''o/a'', owner = ''o'', stars = 100, language = ''C'',
          created_at = [], updated_at = []\<rparr>,
         \<lparr>name = ''c'', full_name = ''o/c'', owner = ''o'', stars = 200, language = ''C'',
          created_at = [], updated_at = []\<rparr>])
      [\<lparr>name = ''a'', full_name = ''o/a'', owner = ''o'', stars = 100, language = ''C'',
        created_at = [], updated_at = []\<rparr>,
       \<lparr>name = ''c'', full_name = ''o/c'', owner = ''o'', stars = 200, language = ''C'',
        created_at = [], updated_at = []\<rparr>]"
  by (simp add: top_by_stars_def sorted_py_def)

text \<open>Ties in the language ranking: first seen, first listed.\<close>

lemma top_langs_example:
  "top_langs (map (\<lambda>l. \<lparr>name = [], full_name = [], owner = [], stars = 0, language = l,
                          created_at = [], updated_at = []\<rparr>)
                [''Go'', ''Python'', ''Go'', ''C'', ''Python'', ''Rust'']) =
     [(''Go'', 2), (''Python'', 2), (''C'', 1), (''Rust'', 1)]"
  by (simp add: top_langs_def top_counts_def count_by_def sorted_py_def)

text \<open>
  C1. For every list of snapshots and every limit \<open>K\<close>, the ranking by stars is in
  descending order of star count; it is drawn from the input (as a multiset it is
  contained in it), and restricted to any one star count it is an initial part, hence a
  subsequence, of the input restricted to that star count, so equal-star snapshots
  keep their input order; its length is \<open>min K (length xs)\<close>. The summary document
  lists the ranking for \<open>K = 5\<close> and the page the one for \<open>K = 10\<close>. For stars
  \<open>[100, 50, 200]\<close> and \<open>K = 2\<close> the ranking has stars \<open>[200, 100]\<close>.
\<close>

theorem top_by_stars_ranking:
  "sorted_wrt (\<lambda>a b. stars a \<ge> stars b) (top_by_stars K xs)
   \<and> mset (top_by_stars K xs) \<subseteq># mset xs
   \<and> (\<forall>s. subseq (filter (\<lambda>r. stars r = s) (top_by_stars K xs)) (filter (\<lambda>r. stars r = s) xs))
   \<and> (\<forall>s. prefix (filter (\<lambda>r. stars r = s) (top_by_stars K xs)) (filter (\<lambda>r. stars r = s) xs))
   \<and> length (top_by_stars K xs) = min K (length xs)
   \<and> (\<exists>md html. update_readme now xs = Inr md \<and> create_index_html now' xs = Inr html
         \<and> top_rows md = map table_row_of (top_by_stars 5 xs)
         \<and> top_rows html = map table_row_of (top_by_stars 10 xs))
   \<and> map stars (top_by_stars 2
        [\<lparr>name = ''a'', full_name = ''o/a'', owner = ''o'', stars = 100, language = ''C'',
          created_at = [], updated_at = []\<rparr>,
         \<lparr>name = ''b'', full_name = ''o/b'', owner = ''o'', stars = 50, language = ''C'',
          created_at = [], updated_at = []\<rparr>,
         \<lparr>name = ''c'', full_name = ''o/c'', owner = ''o'', stars = 200, language = ''C'',
          created_at = [], updated_at = []\<rparr>]) = [200, 100]"
proof -
  let ?ys = "sorted_py stars True xs"
  have 1: "sorted_wrt (\<lambda>a b. stars a \<ge> stars b) (take K ?ys)"
    using sorted_py_rev_sorted by (rule sorted_wrt_take)
  have "mset (take K ?ys) \<subseteq># mset ?ys"
    by (metis append_take_drop_id mset_subset_eq_add_left mset_append)
  then have 2: "mset (take K ?ys) \<subseteq># mset xs" by (simp add: mset_sorted_py)
  have 3: "prefix (filter (\<lambda>r. stars r = s) (take K ?ys)) (filter (\<lambda>r. stars r = s) xs)" for s
    using filter_take_prefix [of "\<lambda>r. stars r = s" K ?ys]
    by (simp add: sorted_py_rev_stable)
  then have 4: "subseq (filter (\<lambda>r. stars r = s) (take K ?ys)) (filter (\<lambda>r. stars r = s) xs)" for s
    by (rule prefix_imp_subseq)
  have 5: "length (take K ?ys) = min K (length xs)"
    by (simp add: length_sorted_py min.commute)
  have 6: "map stars (take 2 (sorted_py stars True
        [\<lparr>name = ''a'', full_name = ''o/a'', owner = ''o'', stars = 100, language = ''C'',
          created_at = [], updated_at = []\<rparr>,
         \<lparr>name = ''b'', full_name = ''o/b'', owner = ''o'', stars = 50, language = ''C'',
          created_at = [], updated_at = []\<rparr>,
         \<lparr>name = ''c'', full_name = ''o/c'', owner = ''o'', stars = 200, language = ''C'',
          created_at = [], updated_at = []\<rparr>])) = [200, 100]"
    by (simp add: sorted_py_def)
  from 1 2 3 4 5 6 show ?thesis
    unfolding top_by_stars_def update_readme_eq create_index_html_eq by simp
qed

text \<open>
  C2. In both documents the average-stars figure is the printed form of the floor of
  the sum of all star counts divided by the number of snapshots, and of \<open>0\<close> for the
  empty list.
\<close>

theorem average_stars_floor:
  "\<exists>md html.
     update_readme now xs = Inr md \<and> create_index_html now' xs = Inr html
     \<and> average_stars_text md =
         fmt_comma (if xs = [] then 0
                    else \<lfloor>real_of_int (sum_list (map stars xs)) / real (length xs)\<rfloor>)
     \<and> average_stars_text html =
         fmt_comma (if xs = [] then 0
                    else \<lfloor>real_of_int (sum_list (map stars xs)) / real (length xs)\<rfloor>)"
  by (simp add: update_readme_eq create_index_html_eq floor_avg)

text \<open>
  C4. On the empty list neither chart is produced, and both document functions return
  normally with \<open>0\<close> repositories, \<open>0\<close> total stars, \<open>0\<close> average stars and an empty
  table.
\<close>

theorem empty_input_renders_zero:
  "generate_overview_chart [] = None
   \<and> generate_language_chart [] = None
   \<and> update_readme now [] =
       Inr \<lparr> tracked_repositories = ''0'', total_stars_text = ''0'',
             average_stars_text = ''0'', top_rows = [], last_update = now \<rparr>
   \<and> create_index_html now [] =
       Inr \<lparr> tracked_repositories = ''0'', total_stars_text = ''0'',
             average_stars_text = ''0'', top_rows = [], last_update = now \<rparr>"
  by (simp add: generate_overview_chart_def generate_language_chart_def count_by_Nil
      update_readme_eq create_index_html_eq str_int_0 fmt_comma_0 top_by_stars_def sorted_py_def)

lemma top_langs_cut_example:
  "top_langs (map (\<lambda>l. \<lparr>name = [], full_name = [], owner = [], stars = 0, language = l,
                          created_at = [], updated_at = []\<rparr>)
                [''L1'', ''L2'', ''L3'', ''L4'', ''L5'', ''L6'', ''L7'', ''L8'',
                 ''L9'', ''L9'', ''L9'']) =
     [(''L9'', 3), (''L1'', 1), (''L2'', 1), (''L3'', 1), (''L4'', 1), (''L5'', 1),
      (''L6'', 1), (''L7'', 1)]"
  by (simp add: top_langs_def top_counts_def count_by_def sorted_py_def)

text \<open>
  C7. The language ranking and the owner ranking, each cut at eight entries:
  \<^item> the entries stand in descending order of count, and entries with equal counts in
    the order in which their language or owner first occurs in the input;
  \<^item> every entry is a language or owner of the input together with its number of
    occurrences, and no key is listed twice;
  \<^item> the ranking has eight entries, or as many as there are distinct keys when these
    are fewer;
  \<^item> every language or owner of the input that is left out ranks below every entry
    listed.
  Together these fix the ranking as a function of the input list.
\<close>

theorem top_counts_stable_ranking:
  "sorted_wrt (ranks_before (map language xs)) (top_langs xs)
   \<and> sorted_wrt (ranks_before (map owner xs)) (top_owners xs)
   \<and> list_all (\<lambda>e. fst e \<in> set (map language xs)
                  \<and> snd e = int (count_list (map language xs) (fst e))) (top_langs xs)
   \<and> list_all (\<lambda>e. fst e \<in> set (map owner xs)
                  \<and> snd e = int (count_list (map owner xs) (fst e))) (top_owners xs)
   \<and> distinct (map fst (top_langs xs))
   \<and> distinct (map fst (top_owners xs))
   \<and> length (top_langs xs) = min 8 (card (set (map language xs)))
   \<and> length (top_owners xs) = min 8 (card (set (map owner xs)))
   \<and> list_all (\<lambda>k. k \<in> set (map fst (top_langs xs))
          \<or> list_all (\<lambda>e. ranks_before (map language xs) e
                             (k, int (count_list (map language xs) k))) (top_langs xs))
        (map language xs)
   \<and> list_all (\<lambda>k. k \<in> set (map fst (top_owners xs))
          \<or> list_all (\<lambda>e. ranks_before (map owner xs) e
                             (k, int (count_list (map owner xs) k))) (top_owners xs))
        (map owner xs)"
  unfolding top_langs_def top_owners_def
  using top_counts_ranked [of language xs 8] top_counts_ranked [of owner xs 8]
        top_counts_entries [of language xs 8] top_counts_entries [of owner xs 8]
        distinct_top_counts [of 8 language xs] distinct_top_counts [of 8 owner xs]
        length_top_counts [of 8 language xs] length_top_counts [of 8 owner xs]
        top_counts_omitted [of 8 language xs] top_counts_omitted [of 8 owner xs]
  by blast

text \<open>
  C8. The counts of the language table add up to the number of snapshots.
\<close>

theorem language_counts_sum:
  "sum_list (map snd (count_by language xs)) = int (length xs)"
  by (rule sum_count_by)

text \<open>
  C10. From the same input the two document functions print the same repository count,
  the same total and the same average.
\<close>

theorem readme_html_stats_agree:
  "\<exists>md html.
     update_readme now xs = Inr md \<and> create_index_html now' xs = Inr html
     \<and> tracked_repositories md = tracked_repositories html
     \<and> total_stars_text md = total_stars_text html
     \<and> average_stars_text md = average_stars_text html"
  by (simp add: update_readme_eq create_index_html_eq)

section \<open>Health check\<close>

lemma check_python_version_on_3:
  "major version \<le> 3 \<Longrightarrow> check_python_version version = version_at_least_spec 3 7 version"
  by (auto simp: check_python_version_def version_at_least_spec_def)

text \<open>
  C5. The version check accepts 3.9.0 and rejects 3.6.0. It also rejects 4.0.0, which
  is at least 3.7 in the lexicographic comparison of \<open>(major, minor)\<close>: the test asks
  for a minor version of at least 7 whatever the major version is.
\<close>

theorem check_python_version_rejects_4_0:
  "check_python_version \<lparr>major = 4, minor = 0, micro = 0\<rparr> = False
   \<and> version_at_least_spec 3 7 \<lparr>major = 4, minor = 0, micro = 0\<rparr> = True
   \<and> check_python_version \<lparr>major = 3, minor = 6, micro = 0\<rparr> = False
   \<and> check_python_version \<lparr>major = 3, minor = 9, micro = 0\<rparr> = True"
  by (simp add: check_python_version_def version_at_least_spec_def)

lemma tally_pair: "tally ok (p, t) = (p + (if ok then 1 else 0), t + 1)"
  by (simp add: tally_def)

lemma check_each_Inr:
  "check_each check xs st = Inr st' \<Longrightarrow>
     st' = (fst st + int (length (filter (\<lambda>x. check x = Inr True) xs)), snd st + int (length xs))
     \<and> list_all (\<lambda>x. check x \<noteq> Inl Uncaught) xs"
proof (induction xs arbitrary: st)
  case Nil
  then show ?case by simp
next
  case (Cons x xs)
  show ?case
  proof (cases "check x")
    case (Inl e)
    with Cons.prems show ?thesis by simp
  next
    case (Inr ok)
    with Cons.prems have "check_each check xs (tally ok st) = Inr st'" by simp
    from Cons.IH [OF this] Inr show ?thesis
      by (cases ok) (simp_all add: tally_def)
  qed
qed

lemma check_each_Inl:
  "check_each check xs st = Inl e \<Longrightarrow> \<not> list_all (\<lambda>x. check x = Inr True) xs"
proof (induction xs arbitrary: st)
  case Nil
  then show ?case by simp
next
  case (Cons x xs)
  then show ?case by (cases "check x") auto
qed

lemma length_filter_eq_iff: "(length (filter f ps) = length ps) = list_all f ps"
  by (metis filter_id_conv length_filter_less list_all_iff nat_neq_iff)

lemma health_main_examples:
  "health_main healthy_host = 0" "health_main broken_pip_host = 1"
  by (simp_all add: health_main_def healthy_host_def broken_pip_host_def check_package_def
      check_command_def check_disk_space_def check_network_def check_python_version_def
      required_packages_def required_commands_def tally_def)

text \<open>
  C6. The exit status is \<open>0\<close> when every check returned success (the version check,
  each required package, each required command, disk space, network) and \<open>1\<close>
  otherwise, which includes a check that returned failure and a check that raised
  instead of returning.
\<close>

theorem health_main_exit_status:
  "health_main h =
     (if check_python_version (python_version h)
         \<and> list_all (\<lambda>package. check_package h package = Inr True) required_packages
         \<and> list_all (\<lambda>command. check_command h command = Inr True) required_commands
         \<and> check_disk_space h \<and> check_network h
      then 0 else 1)"
proof -
  let ?st0 = "tally (check_python_version (python_version h)) (0, 0)"
  let ?np = "length (filter (\<lambda>x. check_package h x = Inr True) required_packages)"
  let ?nc = "length (filter (\<lambda>x. check_command h x = Inr True) required_commands)"
  have p: "?np \<le> length required_packages" and c: "?nc \<le> length required_commands"
    by (rule length_filter_le)+
  have P: "list_all (\<lambda>x. check_package h x = Inr True) required_packages
             \<longleftrightarrow> ?np = length required_packages"
    by (simp only: length_filter_eq_iff)
  have C: "list_all (\<lambda>x. check_command h x = Inr True) required_commands
             \<longleftrightarrow> ?nc = length required_commands"
    by (simp only: length_filter_eq_iff)
  show ?thesis
  proof (cases "check_each (check_package h) required_packages ?st0")
    case (Inl e)
    from check_each_Inl [OF this] Inl show ?thesis
      by (simp add: health_main_def)
  next
    case st1: (Inr st1)
    note s1 = check_each_Inr [OF st1, THEN conjunct1]
    show ?thesis
    proof (cases "check_each (check_command h) required_commands st1")
      case (Inl e)
      from check_each_Inl [OF this] st1 Inl show ?thesis
        by (simp add: health_main_def)
    next
      case st2: (Inr st2)
      note s2 = check_each_Inr [OF st2, THEN conjunct1]
      have "health_main h =
          (let st = tally (check_network h) (tally (check_disk_space h) st2)
           in if fst st = snd st then 0 else 1)"
        using st1 st2 by (simp add: health_main_def)
      then show ?thesis
        unfolding P C s2 s1 using p c
        by (auto simp: tally_def simp del: length_filter_le)
    qed
  qed
qed

end
